theory Spec2Isabelle
  imports Main
begin

section \<open>JavaScript values used by the sources\<close>

text \<open>
  An optional string (\<^verbatim>\<open>string | null | undefined\<close>) is a \<^typ>\<open>string option\<close>.
  In a condition JavaScript treats \<^verbatim>\<open>null\<close>, \<^verbatim>\<open>undefined\<close> and the empty string
  as false; \<open>truthy\<close> is that test.
\<close>

definition truthy :: "string option \<Rightarrow> bool" where
  "truthy s = (case s of None \<Rightarrow> False | Some v \<Rightarrow> v \<noteq> [])"

section \<open>The token callback of \<^verbatim>\<open>app/api/auth/[...nextauth]/route.ts\<close>\<close>

record user_info =
  user_name :: "string option"
  user_email :: "string option"
  user_image :: "string option"

datatype token_error = RefreshAccessTokenError

text \<open>The JWT of the module declaration at the end of the file: every field is optional.\<close>

record JWT =
  accessToken :: "string option"
  refreshToken :: "string option"
  expiresAt :: "int option"
  user :: "user_info option"
  error :: "token_error option"

text \<open>The provider account handed to the callback at sign-in.\<close>

record account =
  access_token :: "string option"
  refresh_token :: "string option"
  expires_at :: "int option"

text \<open>
  The JSON body of the provider's answer to a refresh request. \<open>new_refresh_token\<close> is
  absent when the provider does not rotate the refresh token.
\<close>

record refreshed_tokens =
  new_access_token :: "string option"
  expires_in :: int
  new_refresh_token :: "string option"

text \<open>
  What the \<^verbatim>\<open>try\<close> block of the callback can meet: \<^verbatim>\<open>fetch\<close> or \<^verbatim>\<open>response.json()\<close>
  throws, or a response arrives with its \<^verbatim>\<open>ok\<close> flag and its body.
\<close>

datatype refresh_outcome =
    RequestThrows
  | Response bool refreshed_tokens

text \<open>The POST to the provider's token endpoint, with the refresh token it sends.\<close>

datatype refresh_request = RefreshRequest "string option"

text \<open>
  Line 43: \<^verbatim>\<open>token.expiresAt && Date.now() < token.expiresAt * 1000\<close>. The expiry is in
  seconds, the clock in milliseconds. A missing expiry and the number 0 are false in the
  first conjunct.
\<close>

definition token_not_expired :: "JWT \<Rightarrow> int \<Rightarrow> bool" where
  "token_not_expired token now =
     (case expiresAt token of
        None \<Rightarrow> False
      | Some e \<Rightarrow> e \<noteq> 0 \<and> now < e * 1000)"

text \<open>
  The \<^verbatim>\<open>jwt\<close> callback. \<open>now1\<close> is the clock read at line 43, \<open>now2\<close> the clock read at
  line 71 after the response has arrived. The result is the returned token and the
  refresh requests sent, in order.
\<close>

definition jwt ::
  "JWT \<Rightarrow> account option \<Rightarrow> user_info option \<Rightarrow> int \<Rightarrow> int \<Rightarrow> refresh_outcome
     \<Rightarrow> JWT \<times> refresh_request list" where
  "jwt token acc usr now1 now2 outcome =
     (case (acc, usr) of
        (Some a, Some u) \<Rightarrow>
          (\<lparr>accessToken = access_token a, refreshToken = refresh_token a,
            expiresAt = expires_at a, user = Some u, error = None\<rparr>, [])
      | _ \<Rightarrow>
          if token_not_expired token now1 then (token, [])
          else
            (case outcome of
               Response True body \<Rightarrow>
                 (token\<lparr>accessToken := new_access_token body,
                        expiresAt := Some (now2 div 1000 + expires_in body),
                        refreshToken :=
                          (case new_refresh_token body of
                             Some r \<Rightarrow> Some r
                           | None \<Rightarrow> refreshToken token)\<rparr>,
                  [RefreshRequest (refreshToken token)])
             | _ \<Rightarrow>
                 (token\<lparr>error := Some RefreshAccessTokenError\<rparr>,
                  [RefreshRequest (refreshToken token)])))"

text \<open>The \<^verbatim>\<open>session\<close> callback copies three fields of the token into the session.\<close>

record session =
  session_accessToken :: "string option"
  session_error :: "token_error option"
  session_user :: "user_info option"
  session_expires :: string

definition session_callback :: "session \<Rightarrow> JWT \<Rightarrow> session" where
  "session_callback s token =
     s\<lparr>session_accessToken := accessToken token,
       session_error := error token,
       session_user := user token\<rparr>"

section \<open>The player component of \<^verbatim>\<open>components/SpotifyPlayer.tsx\<close>\<close>

subsection \<open>Data\<close>

text \<open>
  \<^verbatim>\<open>Spotify.Track\<close> and \<^verbatim>\<open>Spotify.PlaybackState\<close> of the type declarations. Of a track
  the component's logic reads the id and the uri; album and artists are read by the
  markup only.
\<close>

record track =
  track_id :: string
  track_name :: string
  track_uri :: "string option"

datatype restrictions = Restrictions (reason: "string option")

datatype disallows = Disallows (playing_restrictions: "restrictions option")

record PlaybackState =
  paused :: bool
  current_track :: track
  state_disallows :: "disallows option"

text \<open>An item of the tracks response: its \<^verbatim>\<open>track\<close> is null for a local file.\<close>

record playlist_item =
  item_track :: "track option"

text \<open>
  A player instance made by \<^verbatim>\<open>new window.Spotify.Player\<close>. Its listeners are closures
  made when the instance is: \<open>seen_playbackError\<close> is the value of the state variable
  \<^verbatim>\<open>playbackError\<close> in the render those closures belong to, which is what the
  \<^verbatim>\<open>player_state_changed\<close> listener reads at line 125.
\<close>

record handle =
  handle_no :: nat
  seen_playbackError :: "string option"

datatype auth_status = Loading | Authenticated | Unauthenticated

text \<open>
  A rejected axios promise: \<^verbatim>\<open>error.response?.status\<close>,
  \<^verbatim>\<open>error.response?.data?.error?.message\<close> and \<^verbatim>\<open>error.message\<close>. axios rejects every
  answer whose status is not 2xx and every request that got no answer.
\<close>

record axios_error =
  response_status :: "nat option"
  response_error_message :: "string option"
  error_message :: string

datatype 'a http_result = Resolved 'a | Rejected axios_error

text \<open>
  Everything the component does to the outside, in the order it does it: requests to the
  Web API (with the bearer token they carry), calls on a player instance, \<^verbatim>\<open>signOut()\<close>
  of next-auth, and the two callbacks of the parent component.
\<close>

datatype effect =
    GetPlaylists string
  | GetPlaylistTracks string string nat
  | TransferPlayback string string
  | PlayOnDevice string string string
  | SignOut
  | Connect handle
  | Disconnect handle
  | TogglePlay handle
  | NextTrack handle
  | PreviousTrack handle
  | OnTrackChange "track option"
  | OnPlaybackStateChange "PlaybackState option"

fun is_catalog_call :: "effect \<Rightarrow> bool" where
  "is_catalog_call (GetPlaylists _) = True"
| "is_catalog_call (GetPlaylistTracks _ _ _) = True"
| "is_catalog_call (TransferPlayback _ _) = True"
| "is_catalog_call (PlayOnDevice _ _ _) = True"
| "is_catalog_call _ = False"

fun is_play_on_device :: "effect \<Rightarrow> bool" where
  "is_play_on_device (PlayOnDevice _ _ _) = True"
| "is_play_on_device _ = False"

text \<open>
  The closure of one run of the initialization effect (lines 58 to 186): the values of
  \<^verbatim>\<open>player\<close> and \<^verbatim>\<open>playbackError\<close> in the render the effect belongs to. \<open>run_no\<close>
  tells the function objects of different runs apart, as \<^verbatim>\<open>===\<close> at line 182 does.
\<close>

record closure =
  run_no :: nat
  closed_player :: "handle option"
  closed_playbackError :: "string option"

text \<open>
  The component with what it reads and writes: the session of \<^verbatim>\<open>useSession\<close>, the
  prop \<^verbatim>\<open>selectedPlaylistId\<close>, the eight state variables, the two refs, the two fields of
  \<^verbatim>\<open>window\<close>, the player instances that are connected, and the effects so far.
\<close>

record world =
  status :: auth_status
  sessionToken :: "string option"
  selectedPlaylistId :: "string option"
  player :: "handle option"
  isPaused :: bool
  currentTrack :: "track option"
  deviceId :: "string option"
  playbackError :: "string option"
  tracks :: "track option list"
  isLoadingTracks :: bool
  playerLoading :: bool
  accessTokenRef :: "string option"
  playerInitialized :: bool
  window_Spotify :: bool
  onSpotifyWebPlaybackSDKReady :: "closure option"
  effect_runs :: nat
  instances_made :: nat
  live_handles :: "handle list"
  effects :: "effect list"

text \<open>The state of a freshly mounted component (lines 34 to 47).\<close>

definition mounted :: "auth_status \<Rightarrow> string option \<Rightarrow> bool \<Rightarrow> world" where
  "mounted st tok sdk =
     \<lparr>status = st, sessionToken = tok, selectedPlaylistId = None,
      player = None, isPaused = True, currentTrack = None, deviceId = None,
      playbackError = None, tracks = [], isLoadingTracks = False, playerLoading = True,
      accessTokenRef = None, playerInitialized = False,
      window_Spotify = sdk, onSpotifyWebPlaybackSDKReady = None,
      effect_runs = 0, instances_made = 0, live_handles = [], effects = []\<rparr>"

definition emit :: "effect \<Rightarrow> world \<Rightarrow> world" where
  "emit e w = w\<lparr>effects := effects w @ [e]\<rparr>"

text \<open>The effects a step added: those of \<open>w'\<close> after the ones \<open>w\<close> already had.\<close>

definition issued :: "world \<Rightarrow> world \<Rightarrow> effect list" where
  "issued w w' = drop (length (effects w)) (effects w')"

definition PREMIUM_REQUIRED_MESSAGE :: string where
  "PREMIUM_REQUIRED_MESSAGE = ''Spotify Premium required for playback.''"

subsection \<open>Initialization of the playback SDK (lines 49 to 186)\<close>

text \<open>
  A closure reads a state variable as it was in the render the closure was made in, and
  writes through the setter into the current state; a ref and a field of \<^verbatim>\<open>window\<close> are
  read and written in place. So a function that outlives its render takes the values it
  closed over as an argument of their own.
\<close>

definition token_effect :: "world \<Rightarrow> world" where
  "token_effect w =
     (if truthy (sessionToken w) then w\<lparr>accessTokenRef := sessionToken w\<rparr>
      else w\<lparr>accessTokenRef := None\<rparr>)"

definition disconnect_player :: "handle \<Rightarrow> world \<Rightarrow> world" where
  "disconnect_player h w =
     emit (Disconnect h) (w\<lparr>live_handles := removeAll h (live_handles w)\<rparr>)"

text \<open>
  Lines 70 to 157. The guard of line 71 reads the two refs and \<^verbatim>\<open>window.Spotify\<close>; the
  old player disconnected at line 79 is the closure's. The new instance is connected at
  line 156; the state variable \<^verbatim>\<open>player\<close> is not set here but by the \<^verbatim>\<open>ready\<close>
  listener.
\<close>

definition initializeSpotifyPlayer :: "closure \<Rightarrow> world \<Rightarrow> world" where
  "initializeSpotifyPlayer cl w =
     (if \<not> truthy (accessTokenRef w) \<or> \<not> window_Spotify w \<or> playerInitialized w then w
      else
        let w1 = w\<lparr>playerLoading := True, playbackError := None\<rparr>;
            w2 = (case closed_player cl of
                    Some p \<Rightarrow> (disconnect_player p w1)\<lparr>player := None\<rparr>
                  | None \<Rightarrow> w1);
            h = \<lparr>handle_no = instances_made w2,
                 seen_playbackError = closed_playbackError cl\<rparr>
        in emit (Connect h)
             (w2\<lparr>instances_made := Suc (instances_made w2),
                 live_handles := live_handles w2 @ [h]\<rparr>))"

text \<open>The \<^verbatim>\<open>getOAuthToken\<close> callback of lines 86 to 95: the token given to the SDK.\<close>

definition getOAuthToken :: "world \<Rightarrow> string option \<times> world" where
  "getOAuthToken w =
     (if truthy (accessTokenRef w) then (accessTokenRef w, w)
      else (None,
            emit SignOut
              (w\<lparr>playbackError := Some ''Authentication required to initialize player.''\<rparr>)))"

text \<open>The listeners of lines 99 to 154, each for an event of the instance \<open>h\<close>.\<close>

definition ready :: "handle \<Rightarrow> string \<Rightarrow> world \<Rightarrow> world" where
  "ready h device_id w =
     w\<lparr>deviceId := Some device_id, player := Some h, playerLoading := False,
       playerInitialized := True\<rparr>"

definition not_ready :: "string \<Rightarrow> world \<Rightarrow> world" where
  "not_ready device_id w =
     w\<lparr>deviceId := None, playerLoading := False,
       playbackError :=
         Some ''Spotify device is offline or unavailable. Ensure Spotify is running.''\<rparr>"

text \<open>
  Line 121: \<^verbatim>\<open>state.disallows?.playing_restrictions &&
  state.disallows.playing_restrictions.reason === 'PREMIUM_REQUIRED'\<close>.
\<close>

definition premium_required :: "PlaybackState \<Rightarrow> bool" where
  "premium_required s =
     (case state_disallows s of
        None \<Rightarrow> False
      | Some d \<Rightarrow>
          (case playing_restrictions d of
             None \<Rightarrow> False
           | Some r \<Rightarrow> reason r = Some ''PREMIUM_REQUIRED''))"

definition player_state_changed :: "handle \<Rightarrow> PlaybackState option \<Rightarrow> world \<Rightarrow> world" where
  "player_state_changed h state w =
     (case state of
        None \<Rightarrow> w
      | Some s \<Rightarrow>
          let w1 = w\<lparr>isPaused := paused s, currentTrack := Some (current_track s)\<rparr>;
              w2 = emit (OnPlaybackStateChange (Some s))
                     (emit (OnTrackChange (Some (current_track s))) w1)
          in if premium_required s
             then w2\<lparr>playbackError := Some PREMIUM_REQUIRED_MESSAGE\<rparr>
             else if seen_playbackError h = Some PREMIUM_REQUIRED_MESSAGE
                  then w2\<lparr>playbackError := None\<rparr>
                  else w2)"

definition initialization_error :: "string \<Rightarrow> world \<Rightarrow> world" where
  "initialization_error msg w =
     w\<lparr>playbackError := Some (''Initialization Error: '' @ msg @ ''.''),
       playerLoading := False, playerInitialized := False\<rparr>"

definition authentication_error :: "string \<Rightarrow> world \<Rightarrow> world" where
  "authentication_error msg w =
     emit SignOut
       (w\<lparr>playbackError := Some (''Authentication Error: '' @ msg @ ''. Please re-login.''),
          playerLoading := False, playerInitialized := False\<rparr>)"

definition account_error :: "string \<Rightarrow> world \<Rightarrow> world" where
  "account_error msg w =
     w\<lparr>playbackError := Some (''Account Error: '' @ msg @ ''.''),
       playerLoading := False, playerInitialized := False\<rparr>"

definition playback_error :: "string \<Rightarrow> world \<Rightarrow> world" where
  "playback_error msg w =
     w\<lparr>playbackError := Some (''Playback Error: '' @ msg @ ''.''),
       playerLoading := False\<rparr>"

text \<open>
  The effect body, lines 58 to 168, run after a render: the closure it makes holds that
  render's \<^verbatim>\<open>player\<close> and \<^verbatim>\<open>playbackError\<close>. The second component is the cleanup the
  effect returns: none on the early return of line 66.
\<close>

definition sdk_effect :: "world \<Rightarrow> world \<times> closure option" where
  "sdk_effect w =
     (if status w \<noteq> Authenticated \<or> \<not> truthy (accessTokenRef w) \<or> playerInitialized w
      then
        ((case player w of
            Some p \<Rightarrow>
              if status w \<noteq> Authenticated
              then (disconnect_player p w)\<lparr>player := None, playerLoading := False\<rparr>
              else w
          | None \<Rightarrow> w), None)
      else
        let cl = \<lparr>run_no = effect_runs w, closed_player = player w,
                  closed_playbackError = playbackError w\<rparr>;
            w0 = w\<lparr>effect_runs := Suc (effect_runs w)\<rparr>;
            w1 = (if window_Spotify w0 \<and> onSpotifyWebPlaybackSDKReady w0 = None
                  then w0\<lparr>onSpotifyWebPlaybackSDKReady := Some cl\<rparr> else w0);
            w2 = (if window_Spotify w1 \<and> truthy (accessTokenRef w1) \<and> \<not> playerInitialized w1
                  then initializeSpotifyPlayer cl w1 else w1)
        in (w2, Some cl))"

text \<open>The cleanup of lines 171 to 185, for the effect run whose closure is \<open>cl\<close>.\<close>

definition sdk_cleanup :: "closure \<Rightarrow> world \<Rightarrow> world" where
  "sdk_cleanup cl w =
     (let w1 = (case closed_player cl of
                  Some p \<Rightarrow> (disconnect_player p w)\<lparr>player := None\<rparr>
                | None \<Rightarrow> w);
          w2 = w1\<lparr>deviceId := None, currentTrack := None\<rparr>;
          w3 = emit (OnPlaybackStateChange None) (emit (OnTrackChange None) w2);
          w4 = w3\<lparr>playerInitialized := False\<rparr>
      in if onSpotifyWebPlaybackSDKReady w4 = Some cl
         then w4\<lparr>onSpotifyWebPlaybackSDKReady := None\<rparr> else w4)"

text \<open>The SDK calling \<^verbatim>\<open>window.onSpotifyWebPlaybackSDKReady\<close>, when one is set.\<close>

definition sdk_ready_callback :: "world \<Rightarrow> world" where
  "sdk_ready_callback w =
     (case onSpotifyWebPlaybackSDKReady w of
        None \<Rightarrow> w
      | Some cl \<Rightarrow> initializeSpotifyPlayer cl w)"

subsection \<open>Fetching the tracks of the selected playlist (lines 189 to 220)\<close>

text \<open>\<^verbatim>\<open>.filter(Boolean)\<close> on a list of track objects and nulls.\<close>

definition filter_Boolean :: "'a option list \<Rightarrow> 'a option list" where
  "filter_Boolean xs = filter (\<lambda>x. x \<noteq> None) xs"

text \<open>
  The function up to its \<^verbatim>\<open>await\<close>: the effect runs when the selected playlist or the
  access token has changed.
\<close>

definition fetchPlaylistTracks_start :: "world \<Rightarrow> world" where
  "fetchPlaylistTracks_start w =
     (case selectedPlaylistId w of
        None \<Rightarrow> w\<lparr>tracks := []\<rparr>
      | Some pid \<Rightarrow>
          (case sessionToken w of
             None \<Rightarrow> w\<lparr>tracks := []\<rparr>
           | Some tok \<Rightarrow>
               if pid = [] \<or> tok = [] then w\<lparr>tracks := []\<rparr>
               else emit (GetPlaylistTracks pid tok 50)
                      (w\<lparr>isLoadingTracks := True, playbackError := None\<rparr>)))"

text \<open>
  The function from its \<^verbatim>\<open>await\<close> on, run when the answer to the request for the
  playlist \<open>pid\<close> arrives. \<open>pid\<close> is the \<^verbatim>\<open>selectedPlaylistId\<close> the function closed over;
  lines 207 to 217 do not read it, nor the current selection.
\<close>

definition fetchPlaylistTracks_finish ::
  "string \<Rightarrow> playlist_item list http_result \<Rightarrow> world \<Rightarrow> world" where
  "fetchPlaylistTracks_finish pid result w =
     (let w1 =
        (case result of
           Resolved items \<Rightarrow> w\<lparr>tracks := filter_Boolean (map item_track items)\<rparr>
         | Rejected e \<Rightarrow>
             let w0 = w\<lparr>playbackError :=
                          Some ''Failed to load playlist tracks. Please try again.''\<rparr>
             in if response_status e = Some 401 then emit SignOut w0 else w0)
      in w1\<lparr>isLoadingTracks := False\<rparr>)"

subsection \<open>Playback controls (lines 224 to 282)\<close>

text \<open>
  Line 265: \<^verbatim>\<open>error.response?.data?.error?.message || error.message\<close>; an empty first
  operand gives the second.
\<close>

definition failure_text :: "axios_error \<Rightarrow> string" where
  "failure_text e =
     (case response_error_message e of
        Some m \<Rightarrow> if m = [] then error_message e else m
      | None \<Rightarrow> error_message e)"

text \<open>The \<^verbatim>\<open>catch\<close> block of lines 263 to 269.\<close>

definition playTrack_catch :: "axios_error \<Rightarrow> world \<Rightarrow> world" where
  "playTrack_catch e w =
     (let w1 = w\<lparr>playbackError := Some (''Failed to play track: '' @ failure_text e @ ''.'')\<rparr>
      in if response_status e = Some 401 then emit SignOut w1 else w1)"

text \<open>
  \<^verbatim>\<open>playTrack\<close>, called from the click on a track of the current render. The two
  arguments after the uri are the answers of the Web API to the transfer request and to
  the play request; the second answer is read only if the second request is sent. After
  an \<^verbatim>\<open>await\<close> the function reads nothing but what it closed over, so the whole call is
  one step.
\<close>

definition playTrack ::
  "string \<Rightarrow> unit http_result \<Rightarrow> unit http_result \<Rightarrow> world \<Rightarrow> world" where
  "playTrack trackUri transfer_answer play_answer w =
     (case (player w, deviceId w, sessionToken w) of
        (Some p, Some dev, Some tok) \<Rightarrow>
          if dev = [] \<or> tok = []
          then w\<lparr>playbackError := Some ''Player not ready or not authenticated.''\<rparr>
          else if playbackError w = Some PREMIUM_REQUIRED_MESSAGE then w
          else
            let w1 = emit (TransferPlayback dev tok) w
            in (case transfer_answer of
                  Rejected e \<Rightarrow> playTrack_catch e w1
                | Resolved _ \<Rightarrow>
                    let w2 = emit (PlayOnDevice dev trackUri tok) w1
                    in (case play_answer of
                          Rejected e \<Rightarrow> playTrack_catch e w2
                        | Resolved _ \<Rightarrow> w2))
      | _ \<Rightarrow> w\<lparr>playbackError := Some ''Player not ready or not authenticated.''\<rparr>)"

definition togglePlayPause :: "world \<Rightarrow> world" where
  "togglePlayPause w = (case player w of None \<Rightarrow> w | Some p \<Rightarrow> emit (TogglePlay p) w)"

definition skipNext :: "world \<Rightarrow> world" where
  "skipNext w = (case player w of None \<Rightarrow> w | Some p \<Rightarrow> emit (NextTrack p) w)"

definition skipPrevious :: "world \<Rightarrow> world" where
  "skipPrevious w = (case player w of None \<Rightarrow> w | Some p \<Rightarrow> emit (PreviousTrack p) w)"

subsection \<open>What is rendered (lines 285 to 439)\<close>

text \<open>
  The four branches of the render logic. Only the last one has the three transport
  buttons and the clickable tracks; its argument is the \<^verbatim>\<open>disabled\<close> attribute of the
  buttons.
\<close>

datatype view =
    PleaseLogIn
  | InitializingPlayer
  | ConnectionFailed "string option"
  | PlayerControls bool

definition render :: "world \<Rightarrow> view" where
  "render w =
     (if status w \<noteq> Authenticated then PleaseLogIn
      else if playerLoading w then InitializingPlayer
      else if player w = None \<or> \<not> truthy (deviceId w) then ConnectionFailed (playbackError w)
      else PlayerControls (playbackError w = Some PREMIUM_REQUIRED_MESSAGE))"

text \<open>
  The test of lines 225 and 304, \<^verbatim>\<open>!player || !deviceId\<close>, negated: an instance is held
  and has a device id. The \<^verbatim>\<open>ready\<close> listener sets both; \<^verbatim>\<open>not_ready\<close> and the
  cleanup clear the device id.
\<close>

definition device_is_ready :: "world \<Rightarrow> bool" where
  "device_is_ready w = (player w \<noteq> None \<and> truthy (deviceId w))"

text \<open>
  The three transport buttons (lines 353 to 382) are the only callers of
  \<open>skipPrevious\<close>, \<open>togglePlayPause\<close> and \<open>skipNext\<close>. They are part of the last
  branch of the render logic only, each with its control as \<^verbatim>\<open>onClick\<close> and with the
  \<^verbatim>\<open>disabled\<close> attribute; a disabled button gets no click. \<open>press\<close> is the click on
  the button of a control in what is rendered.
\<close>

definition press :: "(world \<Rightarrow> world) \<Rightarrow> world \<Rightarrow> world" where
  "press control w =
     (case render w of
        PlayerControls disabled \<Rightarrow> if disabled then w else control w
      | _ \<Rightarrow> w)"

subsection \<open>When the effects run\<close>

text \<open>
  \<^verbatim>\<open>useSession\<close> hands the component a session with another access token (or with
  none: the field is optional in the session's type), the status as before.
\<close>

definition session_changes :: "string option \<Rightarrow> world \<Rightarrow> world" where
  "session_changes tok w = w\<lparr>sessionToken := tok\<rparr>"

text \<open>
  After a render in which a dependency of an effect has changed, the cleanup that the
  effect's last run returned runs, if it returned one, and then the effect. The
  initialization effect depends on the status, the access token and \<^verbatim>\<open>player\<close>
  (line 186); the token effect, which is declared before it, on the access token
  (line 55). The argument \<open>cleanup\<close> is what the last run of the initialization effect
  returned, the second component of the result what this run returns. The track effect
  depends on the selected playlist and the access token (line 220) and is
  \<open>fetchPlaylistTracks_start\<close>.
\<close>

definition after_session_change :: "closure option \<Rightarrow> world \<Rightarrow> world \<times> closure option" where
  "after_session_change cleanup w =
     sdk_effect (token_effect (case cleanup of Some cl \<Rightarrow> sdk_cleanup cl w | None \<Rightarrow> w))"

definition after_player_change :: "closure option \<Rightarrow> world \<Rightarrow> world \<times> closure option" where
  "after_player_change cleanup w =
     sdk_effect (case cleanup of Some cl \<Rightarrow> sdk_cleanup cl w | None \<Rightarrow> w)"

section \<open>The playlists of \<^verbatim>\<open>app/client-home-page.tsx\<close>\<close>

record playlist =
  playlist_id :: string
  playlist_name :: string
  tracks_total :: nat

record home =
  home_status :: auth_status
  home_session :: "session option"
  playlists :: "playlist list"
  isLoadingPlaylists :: bool
  apiError :: "string option"
  home_effects :: "effect list"

text \<open>
  \<^verbatim>\<open>fetchPlaylists\<close>, with the answer of the Web API to its one request. What runs after
  the \<^verbatim>\<open>await\<close> reads the session it closed over only, so the call is one step.
\<close>

definition fetchPlaylists :: "playlist list http_result \<Rightarrow> home \<Rightarrow> home" where
  "fetchPlaylists answer hp =
     (case home_session hp of
        None \<Rightarrow> hp\<lparr>playlists := []\<rparr>
      | Some s \<Rightarrow>
          (case session_accessToken s of
             None \<Rightarrow> hp\<lparr>playlists := []\<rparr>
           | Some tok \<Rightarrow>
               if home_status hp \<noteq> Authenticated \<or> tok = [] then hp\<lparr>playlists := []\<rparr>
               else
                 let hp1 = hp\<lparr>isLoadingPlaylists := True, apiError := None,
                              home_effects := home_effects hp @ [GetPlaylists tok]\<rparr>;
                     hp2 =
                       (case answer of
                          Resolved items \<Rightarrow> hp1\<lparr>playlists := items\<rparr>
                        | Rejected e \<Rightarrow>
                            let hp3 = hp1\<lparr>apiError :=
                                  Some ''Failed to load playlists. Please try again.''\<rparr>
                            in if response_status e = Some 401
                               then
                                 (if session_error s = Some RefreshAccessTokenError
                                  then hp3\<lparr>apiError :=
                                         Some ''Your session has expired. Please log in again.'',
                                         home_effects := home_effects hp3 @ [SignOut]\<rparr>
                                  else hp3\<lparr>home_effects := home_effects hp3 @ [SignOut]\<rparr>)
                               else hp3)
                 in hp2\<lparr>isLoadingPlaylists := False\<rparr>))"

text \<open>
  \<^verbatim>\<open>handlePlaylistSelect\<close> sets the page's \<^verbatim>\<open>selectedPlaylistId\<close>, which the player
  component gets as its prop; the track effect of the player then runs.
\<close>

definition handlePlaylistSelect :: "string \<Rightarrow> world \<Rightarrow> world" where
  "handlePlaylistSelect playlistId w = w\<lparr>selectedPlaylistId := Some playlistId\<rparr>"

section \<open>Concrete runs\<close>

text \<open>A refresh has failed when the request threw or the answer was not \<^verbatim>\<open>ok\<close>.\<close>

definition refresh_failed :: "refresh_outcome \<Rightarrow> bool" where
  "refresh_failed outcome = (case outcome of Response True _ \<Rightarrow> False | _ \<Rightarrow> True)"

definition expired_token :: JWT where
  "expired_token =
     \<lparr>accessToken = Some ''old-access'', refreshToken = Some ''old-refresh'',
      expiresAt = Some 1, user = None, error = None\<rparr>"

definition rotated_body :: refreshed_tokens where
  "rotated_body =
     \<lparr>new_access_token = Some ''new-access'', expires_in = 3600, new_refresh_token = None\<rparr>"

definition stale_session :: session where
  "stale_session =
     \<lparr>session_accessToken = None, session_error = None, session_user = None,
      session_expires = ''2026-01-01T00:00:00.000Z''\<rparr>"

definition failed_refresh_session :: session where
  "failed_refresh_session =
     session_callback stale_session
       (fst (jwt expired_token None None 5000 5000 (Response False rotated_body)))"

definition home_signed_in :: "session \<Rightarrow> home" where
  "home_signed_in s =
     \<lparr>home_status = Authenticated, home_session = Some s, playlists = [],
      isLoadingPlaylists = False, apiError = None, home_effects = []\<rparr>"

definition unauthorized :: axios_error where
  "unauthorized =
     \<lparr>response_status = Some 401, response_error_message = Some ''The access token expired'',
      error_message = ''Request failed with status code 401''\<rparr>"

definition song_a :: track where
  "song_a = \<lparr>track_id = ''a'', track_name = ''Song A'', track_uri = Some ''spotify:track:a''\<rparr>"

definition song_b :: track where
  "song_b = \<lparr>track_id = ''b'', track_name = ''Song B'', track_uri = Some ''spotify:track:b''\<rparr>"

definition handle0 :: handle where
  "handle0 = \<lparr>handle_no = 0, seen_playbackError = None\<rparr>"

definition handle1 :: handle where
  "handle1 = \<lparr>handle_no = 1, seen_playbackError = None\<rparr>"

text \<open>
  A signed-in user with the SDK script loaded: the component mounts, the token effect
  and the initialization effect run, and the first instance is connecting.
\<close>

definition signed_in :: world where
  "signed_in = token_effect (mounted Authenticated (Some ''token-1'') True)"

definition connecting :: world where
  "connecting = fst (sdk_effect signed_in)"

text \<open>
  The session's access token changes before the instance has reported \<^verbatim>\<open>ready\<close>: the
  dependency \<^verbatim>\<open>session?.accessToken\<close> of the initialization effect has changed, so its
  cleanup runs, then the token effect and the initialization effect again.
\<close>

definition token_refreshed_while_connecting :: world where
  "token_refreshed_while_connecting =
     (case sdk_effect signed_in of
        (w, Some cl) \<Rightarrow>
          fst (sdk_effect (token_effect (sdk_cleanup cl (w\<lparr>sessionToken := Some ''token-2''\<rparr>))))
      | (w, None) \<Rightarrow> w)"

definition device_ready :: world where
  "device_ready = ready handle0 ''device-1'' connecting"

definition premium_snapshot :: PlaybackState where
  "premium_snapshot =
     \<lparr>paused = True, current_track = song_a,
      state_disallows = Some (Disallows (Some (Restrictions (Some ''PREMIUM_REQUIRED''))))\<rparr>"

text \<open>
  A run in which the device stays ready. The component mounts signed in with the SDK
  loaded, and instance 0 is connecting; the SDK takes the token through
  \<^verbatim>\<open>getOAuthToken\<close>. The session loses its access token, status unchanged (the \<^verbatim>\<open>jwt\<close>
  callback returns such a token when the answer to a refresh holds no access token,
  line 69): the cleanup runs, and the initialization effect returns at line 66 without
  a cleanup. Instance 0 reports \<^verbatim>\<open>ready\<close>: \<^verbatim>\<open>player\<close> has changed, so the effect runs,
  and returns at line 66 again. The session gets an access token again: the effect runs
  and returns at line 66, now because \<^verbatim>\<open>playerInitialized\<close> is set. After each change
  of the session the track effect runs too. No cleanup is pending after the first
  change, so nothing resets \<^verbatim>\<open>playerInitialized\<close> or clears the device id.
\<close>

definition mounted_run :: "world \<times> closure option" where
  "mounted_run =
     apfst fetchPlaylistTracks_start
       (after_session_change None (mounted Authenticated (Some ''token-1'') True))"

definition token_lost_run :: "world \<times> closure option" where
  "token_lost_run =
     (case mounted_run of
        (w, cleanup) \<Rightarrow>
          apfst fetchPlaylistTracks_start
            (after_session_change cleanup (session_changes None w)))"

definition ready_run :: "world \<times> closure option" where
  "ready_run =
     (case token_lost_run of
        (w, cleanup) \<Rightarrow> after_player_change cleanup (ready handle0 ''device-1'' w))"

definition token_back_run :: "world \<times> closure option" where
  "token_back_run =
     (case ready_run of
        (w, cleanup) \<Rightarrow>
          apfst fetchPlaylistTracks_start
            (after_session_change cleanup (session_changes (Some ''token-2'') w)))"

text \<open>
  The run goes on: the user selects playlist A and its track is shown; instance 0
  reports a snapshot with the premium restriction; the user selects playlist B and its
  track is shown. No snapshot arrives after the restricted one.
\<close>

definition tracks_A_shown :: world where
  "tracks_A_shown =
     fetchPlaylistTracks_finish ''playlist-A'' (Resolved [\<lparr>item_track = Some song_a\<rparr>])
       (fetchPlaylistTracks_start (handlePlaylistSelect ''playlist-A'' (fst token_back_run)))"

definition premium_reported :: world where
  "premium_reported = player_state_changed handle0 (Some premium_snapshot) tracks_A_shown"

definition tracks_B_shown :: world where
  "tracks_B_shown =
     fetchPlaylistTracks_finish ''playlist-B'' (Resolved [\<lparr>item_track = Some song_b\<rparr>])
       (fetchPlaylistTracks_start (handlePlaylistSelect ''playlist-B'' premium_reported))"

text \<open>In the same run, after playlist A is shown, the device reports \<^verbatim>\<open>not_ready\<close>.\<close>

definition device_gone_offline :: world where
  "device_gone_offline = not_ready ''device-1'' tracks_A_shown"

text \<open>
  Instance 0 is connecting and reports \<^verbatim>\<open>authentication_error\<close>; no dependency of an
  effect changes. The user then selects playlist A on the page, and the track effect
  runs.
\<close>

definition auth_error_reported :: world where
  "auth_error_reported = authentication_error ''Invalid token'' connecting"

definition selected_after_auth_error :: world where
  "selected_after_auth_error =
     fetchPlaylistTracks_start (handlePlaylistSelect ''playlist-A'' auth_error_reported)"

text \<open>
  The user selects playlist A and then playlist B; the answer for B arrives first, the
  answer for A after it.
\<close>

definition selected_A :: world where
  "selected_A = fetchPlaylistTracks_start (handlePlaylistSelect ''playlist-A'' device_ready)"

definition selected_B :: world where
  "selected_B = fetchPlaylistTracks_start (handlePlaylistSelect ''playlist-B'' selected_A)"

definition answered_B :: world where
  "answered_B =
     fetchPlaylistTracks_finish ''playlist-B'' (Resolved [\<lparr>item_track = Some song_b\<rparr>]) selected_B"

definition answered_A_late :: world where
  "answered_A_late =
     fetchPlaylistTracks_finish ''playlist-A''
       (Resolved [\<lparr>item_track = Some song_a\<rparr>, \<lparr>item_track = None\<rparr>]) answered_B"

section \<open>Facts shared by the proofs\<close>

lemma jwt_no_account:
  assumes "acc = None \<or> usr = None"
  shows "jwt token acc usr now1 now2 outcome =
     (if token_not_expired token now1 then (token, [])
      else (case outcome of
               Response True body \<Rightarrow>
                 (token\<lparr>accessToken := new_access_token body,
                        expiresAt := Some (now2 div 1000 + expires_in body),
                        refreshToken :=
                          (case new_refresh_token body of
                             Some r \<Rightarrow> Some r
                           | None \<Rightarrow> refreshToken token)\<rparr>,
                  [RefreshRequest (refreshToken token)])
             | _ \<Rightarrow>
                 (token\<lparr>error := Some RefreshAccessTokenError\<rparr>,
                  [RefreshRequest (refreshToken token)])))"
  using assms by (auto simp: jwt_def split: option.splits)

lemma effects_emit: "effects (emit e w) = effects w @ [e]"
  by (simp add: emit_def)

lemma effects_playTrack_catch:
  "effects (playTrack_catch e w) =
     effects w @ (if response_status e = Some 401 then [SignOut] else [])"
  by (simp add: playTrack_catch_def emit_def Let_def)

text \<open>What one call of \<open>playTrack\<close> does to the outside, branch by branch.\<close>

lemma issued_playTrack:
  "issued w (playTrack trackUri ta pa w) =
     (case (player w, deviceId w, sessionToken w) of
        (Some p, Some dev, Some tok) \<Rightarrow>
          if dev = [] \<or> tok = [] \<or> playbackError w = Some PREMIUM_REQUIRED_MESSAGE then []
          else TransferPlayback dev tok #
            (case ta of
               Rejected e \<Rightarrow> if response_status e = Some 401 then [SignOut] else []
             | Resolved _ \<Rightarrow> PlayOnDevice dev trackUri tok #
                 (case pa of
                    Rejected e \<Rightarrow> if response_status e = Some 401 then [SignOut] else []
                  | Resolved _ \<Rightarrow> []))
      | _ \<Rightarrow> [])"
  by (simp add: playTrack_def issued_def effects_playTrack_catch effects_emit Let_def
      split: option.splits http_result.splits)

lemma device_ready_fields:
  "player device_ready = Some handle0" "deviceId device_ready = Some ''device-1''"
  "sessionToken device_ready = Some ''token-1''" "playbackError device_ready = None"
  "status device_ready = Authenticated" "playerLoading device_ready = False"
  "effects device_ready = [Connect handle0]" "live_handles device_ready = [handle0]"
  by (simp_all add: device_ready_def ready_def connecting_def sdk_effect_def signed_in_def
      token_effect_def mounted_def truthy_def initializeSpotifyPlayer_def emit_def
      handle0_def Let_def)

lemma stable_ready_world:
  "fst token_back_run =
     \<lparr>status = Authenticated, sessionToken = Some ''token-2'', selectedPlaylistId = None,
      player = Some handle0, isPaused = True, currentTrack = None,
      deviceId = Some ''device-1'', playbackError = None, tracks = [],
      isLoadingTracks = False, playerLoading = False, accessTokenRef = Some ''token-2'',
      playerInitialized = True, window_Spotify = True, onSpotifyWebPlaybackSDKReady = None,
      effect_runs = 1, instances_made = 1, live_handles = [handle0],
      effects = [Connect handle0, OnTrackChange None, OnPlaybackStateChange None]\<rparr>"
  by (simp add: token_back_run_def ready_run_def token_lost_run_def mounted_run_def
      after_session_change_def after_player_change_def session_changes_def sdk_effect_def
      sdk_cleanup_def token_effect_def initializeSpotifyPlayer_def mounted_def truthy_def
      emit_def ready_def fetchPlaylistTracks_start_def handle0_def Let_def)

lemma tracks_A_shown_fields:
  "status tracks_A_shown = Authenticated" "sessionToken tracks_A_shown = Some ''token-2''"
  "player tracks_A_shown = Some handle0" "deviceId tracks_A_shown = Some ''device-1''"
  "playbackError tracks_A_shown = None" "playerLoading tracks_A_shown = False"
  "tracks tracks_A_shown = [Some song_a]" "isLoadingTracks tracks_A_shown = False"
  "live_handles tracks_A_shown = [handle0]"
  "effects tracks_A_shown =
     [Connect handle0, OnTrackChange None, OnPlaybackStateChange None,
      GetPlaylistTracks ''playlist-A'' ''token-2'' 50]"
  by (simp_all add: tracks_A_shown_def stable_ready_world fetchPlaylistTracks_finish_def
      fetchPlaylistTracks_start_def handlePlaylistSelect_def filter_Boolean_def emit_def
      Let_def)

lemma premium_reported_fields:
  "status premium_reported = Authenticated" "sessionToken premium_reported = Some ''token-2''"
  "player premium_reported = Some handle0" "deviceId premium_reported = Some ''device-1''"
  "playbackError premium_reported = Some PREMIUM_REQUIRED_MESSAGE"
  "playerLoading premium_reported = False"
  "tracks premium_reported = [Some song_a]" "isLoadingTracks premium_reported = False"
  by (simp_all add: premium_reported_def player_state_changed_def premium_required_def
      premium_snapshot_def emit_def tracks_A_shown_fields Let_def)

lemma tracks_B_shown_fields:
  "status tracks_B_shown = Authenticated" "sessionToken tracks_B_shown = Some ''token-2''"
  "player tracks_B_shown = Some handle0" "deviceId tracks_B_shown = Some ''device-1''"
  "playbackError tracks_B_shown = None" "playerLoading tracks_B_shown = False"
  "tracks tracks_B_shown = [Some song_b]" "isLoadingTracks tracks_B_shown = False"
  by (simp_all add: tracks_B_shown_def fetchPlaylistTracks_finish_def
      fetchPlaylistTracks_start_def handlePlaylistSelect_def filter_Boolean_def emit_def
      premium_reported_fields Let_def)

lemma connecting_fields:
  "status connecting = Authenticated" "sessionToken connecting = Some ''token-1''"
  "player connecting = None" "deviceId connecting = None"
  "selectedPlaylistId connecting = None" "effects connecting = [Connect handle0]"
  "accessTokenRef connecting = Some ''token-1''" "tracks connecting = []"
  by (simp_all add: connecting_def sdk_effect_def signed_in_def token_effect_def mounted_def
      truthy_def initializeSpotifyPlayer_def emit_def handle0_def Let_def)

lemma mounted_run_world: "fst mounted_run = connecting"
proof -
  have "fetchPlaylistTracks_start connecting = connecting"
    by (simp add: fetchPlaylistTracks_start_def connecting_fields)
  then show ?thesis
    by (simp add: mounted_run_def after_session_change_def connecting_def signed_in_def)
qed

section \<open>The claims\<close>

subsection \<open>C1: a late answer for a playlist that is no longer selected\<close>

text \<open>
  C1 as stated: an answer to the track request for playlist P that arrives after the
  selection has changed to Q does not change the displayed track list. It fails on the
  run \<open>answered_A_late\<close>: playlist B is selected and its one track is displayed, then
  the answer for playlist A arrives and the displayed list becomes A's track.
\<close>

theorem stale_tracks_response_counterexample:
  "selectedPlaylistId answered_B = Some ''playlist-B''
   \<and> tracks answered_B = [Some song_b]
   \<and> selectedPlaylistId answered_A_late = Some ''playlist-B''
   \<and> tracks answered_A_late = [Some song_a]
   \<and> tracks answered_A_late \<noteq> tracks answered_B"
  by (simp add: answered_A_late_def answered_B_def selected_B_def selected_A_def
      fetchPlaylistTracks_finish_def fetchPlaylistTracks_start_def handlePlaylistSelect_def
      filter_Boolean_def emit_def device_ready_fields song_a_def song_b_def Let_def)

text \<open>
  C1 as amended: the code after the \<^verbatim>\<open>await\<close> compares nothing. A successful answer
  replaces the displayed list by its own tracks whatever playlist the request was made
  for and whatever playlist is selected when it arrives (the last answer to arrive wins);
  the answer never changes the selection.
\<close>

theorem tracks_response_applied_whatever_is_selected:
  "tracks (fetchPlaylistTracks_finish pid (Resolved items) w) =
     filter_Boolean (map item_track items)
   \<and> fetchPlaylistTracks_finish pid answer w = fetchPlaylistTracks_finish pid' answer w
   \<and> tracks (fetchPlaylistTracks_finish pid answer (w\<lparr>selectedPlaylistId := sel\<rparr>)) =
       tracks (fetchPlaylistTracks_finish pid answer w)
   \<and> selectedPlaylistId (fetchPlaylistTracks_finish pid answer w) = selectedPlaylistId w"
  by (simp add: fetchPlaylistTracks_finish_def emit_def Let_def split: http_result.splits)

theorem tracks_response_applied_whatever_is_selected_witness:
  "tracks (fetchPlaylistTracks_finish ''playlist-A''
             (Resolved [\<lparr>item_track = Some song_a\<rparr>, \<lparr>item_track = None\<rparr>]) answered_B) =
     [Some song_a]
   \<and> selectedPlaylistId (fetchPlaylistTracks_finish ''playlist-A''
             (Resolved [\<lparr>item_track = Some song_a\<rparr>, \<lparr>item_track = None\<rparr>]) answered_B) =
     selectedPlaylistId answered_B"
  using tracks_response_applied_whatever_is_selected
    [where pid = "''playlist-A''" and w = answered_B
       and items = "[\<lparr>item_track = Some song_a\<rparr>, \<lparr>item_track = None\<rparr>]"
       and answer = "Resolved [\<lparr>item_track = Some song_a\<rparr>, \<lparr>item_track = None\<rparr>]"]
  by (simp add: filter_Boolean_def)

subsection \<open>C2: a second connect request while the first is in flight\<close>

text \<open>
  C2: while a connect attempt is in flight a second connect request does nothing, so at
  most one player instance is live. The code does otherwise. The flag
  \<^verbatim>\<open>playerInitialized\<close> is set by the \<^verbatim>\<open>ready\<close> listener only, so it is still false
  while the first instance connects, and the state variable \<^verbatim>\<open>player\<close> is still
  undefined, so nothing disconnects the first instance. When the session's token changes
  in that window, the effect runs again and a second instance is connected beside the
  first; so it is when the SDK calls the global callback in that window. Once the
  instance has reported \<^verbatim>\<open>ready\<close> the flag is set and the same call does nothing.
\<close>

theorem second_connect_while_connecting_adds_handle:
  "live_handles connecting = [handle0]
   \<and> \<not> playerInitialized connecting
   \<and> player connecting = None
   \<and> live_handles token_refreshed_while_connecting = [handle0, handle1]
   \<and> effects token_refreshed_while_connecting =
        [Connect handle0, OnTrackChange None, OnPlaybackStateChange None, Connect handle1]
   \<and> live_handles (sdk_ready_callback connecting) = [handle0, handle1]
   \<and> sdk_ready_callback device_ready = device_ready"
  by (simp add: token_refreshed_while_connecting_def device_ready_def ready_def
      connecting_def signed_in_def sdk_ready_callback_def sdk_effect_def sdk_cleanup_def
      token_effect_def initializeSpotifyPlayer_def mounted_def truthy_def emit_def
      handle0_def handle1_def Let_def)

theorem second_connect_while_connecting_adds_handle_witness:
  "length (live_handles token_refreshed_while_connecting) = 2
   \<and> handle0 \<noteq> handle1"
  using second_connect_while_connecting_adds_handle
  by (simp add: handle0_def handle1_def)

subsection \<open>C3: the premium restriction\<close>

text \<open>
  C3 as stated: after a snapshot with restriction reason PREMIUM_REQUIRED every
  \<open>playTrack\<close> is rejected without a network call until a snapshot without the
  restriction is observed. It fails on the run that ends in \<open>tracks_B_shown\<close>. The
  device is ready and stays so, and the track of playlist A is shown. The snapshot sets
  the premium message, and a click on the track sends nothing. The user selects
  playlist B: the track effect clears the playback error at line 196, and the track of B
  is shown with the controls. No snapshot has arrived since the restricted one, and the
  click on the track of B sends the transfer request and the play request.
\<close>

theorem premium_rejection_ended_by_track_fetch_counterexample:
  "fst (getOAuthToken (fst mounted_run)) = Some ''token-1''
   \<and> render tracks_A_shown = PlayerControls False
   \<and> live_handles tracks_A_shown = [handle0]
   \<and> playbackError premium_reported = Some PREMIUM_REQUIRED_MESSAGE
   \<and> issued premium_reported
        (playTrack ''spotify:track:a'' (Resolved ()) (Resolved ()) premium_reported) = []
   \<and> render tracks_B_shown = PlayerControls False
   \<and> tracks tracks_B_shown = [Some song_b]
   \<and> \<not> isLoadingTracks tracks_B_shown
   \<and> track_uri song_b = Some ''spotify:track:b''
   \<and> issued tracks_B_shown
        (playTrack ''spotify:track:b'' (Resolved ()) (Resolved ()) tracks_B_shown) =
      [TransferPlayback ''device-1'' ''token-2'',
       PlayOnDevice ''device-1'' ''spotify:track:b'' ''token-2'']"
  by (simp add: render_def issued_playTrack tracks_A_shown_fields premium_reported_fields
      tracks_B_shown_fields truthy_def PREMIUM_REQUIRED_MESSAGE_def song_b_def
      getOAuthToken_def mounted_run_world connecting_fields)

text \<open>
  C3 as amended: a snapshot with restriction reason PREMIUM_REQUIRED sets the playback
  error to the premium message. While the playback error is that message every
  \<open>playTrack\<close> does nothing to the outside (no request, no sign-out). With a device
  ready and a token present, \<open>playTrack\<close> sends nothing exactly when the playback error
  is that message, and otherwise starts with the transfer request: the rejection lasts
  as long as the message and no longer. The message is gone as soon as the playback
  error is written again: the track effect that starts a fetch for the selected playlist
  clears it (line 196), \<^verbatim>\<open>not_ready\<close> and \<^verbatim>\<open>playback_error\<close> put their own message in
  its place. What a later snapshot does to the message is not part of this statement.
\<close>

theorem premium_message_rejects_playTrack:
  "(premium_required s \<longrightarrow>
      playbackError (player_state_changed h (Some s) w) = Some PREMIUM_REQUIRED_MESSAGE
      \<and> issued (player_state_changed h (Some s) w)
           (playTrack trackUri ta pa (player_state_changed h (Some s) w)) = [])
   \<and> (playbackError w = Some PREMIUM_REQUIRED_MESSAGE \<longrightarrow>
        issued w (playTrack trackUri ta pa w) = []
        \<and> (device_is_ready w \<and> truthy (sessionToken w) \<longrightarrow> playTrack trackUri ta pa w = w))
   \<and> (device_is_ready w \<and> truthy (sessionToken w) \<longrightarrow>
        (issued w (playTrack trackUri ta pa w) = []
           \<longleftrightarrow> playbackError w = Some PREMIUM_REQUIRED_MESSAGE))
   \<and> (\<forall>dev tok. device_is_ready w \<and> truthy (sessionToken w) \<and> deviceId w = Some dev
          \<and> sessionToken w = Some tok \<and> playbackError w \<noteq> Some PREMIUM_REQUIRED_MESSAGE \<longrightarrow>
          (\<exists>rest. issued w (playTrack trackUri ta pa w) = TransferPlayback dev tok # rest))
   \<and> (truthy (selectedPlaylistId w) \<and> truthy (sessionToken w) \<longrightarrow>
        playbackError (fetchPlaylistTracks_start w) = None)
   \<and> playbackError (not_ready device_id w) \<noteq> Some PREMIUM_REQUIRED_MESSAGE
   \<and> playbackError (playback_error msg w) \<noteq> Some PREMIUM_REQUIRED_MESSAGE"
proof -
  have a: "playbackError w' = Some PREMIUM_REQUIRED_MESSAGE \<Longrightarrow>
             issued w' (playTrack trackUri ta pa w') = []" for w'
    by (simp add: issued_playTrack split: option.splits)
  have b: "premium_required s \<Longrightarrow>
             playbackError (player_state_changed h (Some s) w) = Some PREMIUM_REQUIRED_MESSAGE"
    by (simp add: player_state_changed_def Let_def)
  have c: "playbackError w = Some PREMIUM_REQUIRED_MESSAGE \<Longrightarrow>
             device_is_ready w \<and> truthy (sessionToken w) \<Longrightarrow> playTrack trackUri ta pa w = w"
    by (auto simp: playTrack_def truthy_def device_is_ready_def split: option.splits)
  have d: "device_is_ready w \<and> truthy (sessionToken w) \<Longrightarrow> deviceId w = Some dev \<Longrightarrow>
             sessionToken w = Some tok \<Longrightarrow> playbackError w \<noteq> Some PREMIUM_REQUIRED_MESSAGE \<Longrightarrow>
             \<exists>rest. issued w (playTrack trackUri ta pa w) = TransferPlayback dev tok # rest"
    for dev tok
    by (auto simp: issued_playTrack truthy_def device_is_ready_def
        split: option.splits http_result.splits)
  have e: "device_is_ready w \<and> truthy (sessionToken w) \<Longrightarrow>
             (issued w (playTrack trackUri ta pa w) = []
                \<longleftrightarrow> playbackError w = Some PREMIUM_REQUIRED_MESSAGE)"
    by (auto simp: issued_playTrack truthy_def device_is_ready_def
        split: option.splits http_result.splits)
  have f: "truthy (selectedPlaylistId w) \<and> truthy (sessionToken w) \<Longrightarrow>
             playbackError (fetchPlaylistTracks_start w) = None"
    by (auto simp: fetchPlaylistTracks_start_def truthy_def emit_def split: option.splits)
  have g: "playbackError (not_ready device_id w) \<noteq> Some PREMIUM_REQUIRED_MESSAGE"
    "playbackError (playback_error msg w) \<noteq> Some PREMIUM_REQUIRED_MESSAGE"
    by (simp_all add: not_ready_def playback_error_def PREMIUM_REQUIRED_MESSAGE_def)
  from a b c d e f g show ?thesis by blast
qed

theorem premium_message_rejects_playTrack_witness:
  "premium_required premium_snapshot
   \<and> device_is_ready premium_reported \<and> truthy (sessionToken premium_reported)
   \<and> playbackError premium_reported = Some PREMIUM_REQUIRED_MESSAGE
   \<and> playTrack ''spotify:track:a'' (Resolved ()) (Resolved ()) premium_reported = premium_reported
   \<and> truthy (selectedPlaylistId (handlePlaylistSelect ''playlist-B'' premium_reported))
   \<and> playbackError (fetchPlaylistTracks_start
        (handlePlaylistSelect ''playlist-B'' premium_reported)) = None
   \<and> device_is_ready tracks_B_shown \<and> truthy (sessionToken tracks_B_shown)
   \<and> playbackError tracks_B_shown \<noteq> Some PREMIUM_REQUIRED_MESSAGE
   \<and> issued tracks_B_shown
        (playTrack ''spotify:track:b'' (Resolved ()) (Resolved ()) tracks_B_shown) \<noteq> []"
proof -
  have p: "premium_required premium_snapshot"
    by (simp add: premium_required_def premium_snapshot_def)
  have r: "device_is_ready premium_reported \<and> truthy (sessionToken premium_reported)"
    by (simp add: device_is_ready_def truthy_def premium_reported_fields)
  have e: "playbackError premium_reported = Some PREMIUM_REQUIRED_MESSAGE"
    by (simp add: premium_reported_fields)
  have s: "truthy (selectedPlaylistId (handlePlaylistSelect ''playlist-B'' premium_reported))
           \<and> truthy (sessionToken (handlePlaylistSelect ''playlist-B'' premium_reported))"
    by (simp add: handlePlaylistSelect_def truthy_def premium_reported_fields)
  have q: "device_is_ready tracks_B_shown \<and> truthy (sessionToken tracks_B_shown)"
    by (simp add: device_is_ready_def truthy_def tracks_B_shown_fields)
  have n: "playbackError tracks_B_shown \<noteq> Some PREMIUM_REQUIRED_MESSAGE"
    by (simp add: tracks_B_shown_fields)
  note t = premium_message_rejects_playTrack
    [where w = premium_reported and trackUri = "''spotify:track:a''"
       and ta = "Resolved ()" and pa = "Resolved ()"]
  note u = premium_message_rejects_playTrack
    [where w = "handlePlaylistSelect ''playlist-B'' premium_reported"]
  note v = premium_message_rejects_playTrack
    [where w = tracks_B_shown and trackUri = "''spotify:track:b''"
       and ta = "Resolved ()" and pa = "Resolved ()"]
  from e r t have 1: "playTrack ''spotify:track:a'' (Resolved ()) (Resolved ()) premium_reported
                        = premium_reported"
    by blast
  from s u have 2: "playbackError (fetchPlaylistTracks_start
        (handlePlaylistSelect ''playlist-B'' premium_reported)) = None"
    by blast
  from q n v have 3: "issued tracks_B_shown
        (playTrack ''spotify:track:b'' (Resolved ()) (Resolved ()) tracks_B_shown) \<noteq> []"
    by blast
  from p r e 1 s 2 q n 3 show ?thesis by simp
qed

subsection \<open>C4: transfer first, then play\<close>

text \<open>
  C4: in every call of \<open>playTrack\<close> the play request is sent only if the transfer request
  of the same call succeeded. A rejected transfer means no play request among the effects
  of the call; and the requests of a call are none, or the transfer alone (it was
  rejected), or the transfer followed by the play request for the same device and token
  (the transfer was answered with success).
\<close>

theorem play_request_only_after_transfer:
  "(\<forall>e. ta = Rejected e \<longrightarrow>
       \<not> list_ex is_play_on_device (issued w (playTrack trackUri ta pa w)))
   \<and> (filter is_catalog_call (issued w (playTrack trackUri ta pa w)) = []
      \<or> (\<exists>dev tok. deviceId w = Some dev \<and> sessionToken w = Some tok \<and>
            ((\<exists>e. ta = Rejected e) \<and>
               filter is_catalog_call (issued w (playTrack trackUri ta pa w)) =
                 [TransferPlayback dev tok]
             \<or> ta = Resolved () \<and>
               filter is_catalog_call (issued w (playTrack trackUri ta pa w)) =
                 [TransferPlayback dev tok, PlayOnDevice dev trackUri tok])))"
  by (auto simp: issued_playTrack split: option.splits http_result.splits)

theorem play_request_only_after_transfer_witness:
  "issued device_ready
     (playTrack ''spotify:track:a'' (Rejected unauthorized) (Resolved ()) device_ready) =
     [TransferPlayback ''device-1'' ''token-1'', SignOut]
   \<and> \<not> list_ex is_play_on_device
         (issued device_ready
            (playTrack ''spotify:track:a'' (Rejected unauthorized) (Resolved ()) device_ready))
   \<and> filter is_catalog_call
        (issued device_ready
           (playTrack ''spotify:track:a'' (Resolved ()) (Resolved ()) device_ready)) =
     [TransferPlayback ''device-1'' ''token-1'',
      PlayOnDevice ''device-1'' ''spotify:track:a'' ''token-1'']"
  using play_request_only_after_transfer
    [where ta = "Rejected unauthorized" and w = device_ready
       and trackUri = "''spotify:track:a''" and pa = "Resolved ()"]
  by (simp add: issued_playTrack unauthorized_def device_ready_fields
      PREMIUM_REQUIRED_MESSAGE_def)

subsection \<open>C5: a refresh that fails\<close>

text \<open>
  C5 as stated: when the refresh fails the stored credential is discarded. It fails on an
  expired token whose refresh the provider answers with an error: the callback returns
  the old access token, refresh token and expiry, with the error marker added.
\<close>

theorem refresh_failure_keeps_credential_counterexample:
  "jwt expired_token None None 5000 5000 (Response False rotated_body) =
     (\<lparr>accessToken = Some ''old-access'', refreshToken = Some ''old-refresh'',
       expiresAt = Some 1, user = None, error = Some RefreshAccessTokenError\<rparr>,
      [RefreshRequest (Some ''old-refresh'')])
   \<and> accessToken (fst (jwt expired_token None None 5000 5000 (Response False rotated_body)))
       \<noteq> None"
  by (simp add: jwt_def expired_token_def token_not_expired_def)

text \<open>
  C5 as amended: when the refresh of an expired token fails (the request throws or the
  answer is not ok), the callback has sent exactly one refresh request and returns the
  previous token with every field kept and the marker \<^verbatim>\<open>RefreshAccessTokenError\<close> added;
  the session callback hands the marker and the old access token to the client; and when
  the playlists request made with such a session is answered 401, the page shows the
  session-expired message and calls \<^verbatim>\<open>signOut\<close>.
\<close>

theorem refresh_failure_marks_token_and_page_signs_out:
  assumes "acc = None \<or> usr = None"
    and "\<not> token_not_expired token now1"
    and "refresh_failed outcome"
    and "accessToken token = Some tok" and "tok \<noteq> []"
    and "home_status hp = Authenticated"
    and "home_session hp = Some (session_callback s (fst (jwt token acc usr now1 now2 outcome)))"
    and "response_status e = Some 401"
  shows "jwt token acc usr now1 now2 outcome =
           (token\<lparr>error := Some RefreshAccessTokenError\<rparr>, [RefreshRequest (refreshToken token)])
       \<and> session_callback s (fst (jwt token acc usr now1 now2 outcome)) =
           s\<lparr>session_accessToken := Some tok, session_error := Some RefreshAccessTokenError,
             session_user := user token\<rparr>
       \<and> fetchPlaylists (Rejected e) hp =
           hp\<lparr>isLoadingPlaylists := False,
              apiError := Some ''Your session has expired. Please log in again.'',
              home_effects := home_effects hp @ [GetPlaylists tok, SignOut]\<rparr>"
proof -
  have a: "jwt token acc usr now1 now2 outcome =
           (token\<lparr>error := Some RefreshAccessTokenError\<rparr>, [RefreshRequest (refreshToken token)])"
    using assms(1-3)
    by (simp add: jwt_no_account refresh_failed_def split: refresh_outcome.splits bool.splits)
  have b: "session_callback s (fst (jwt token acc usr now1 now2 outcome)) =
           s\<lparr>session_accessToken := Some tok, session_error := Some RefreshAccessTokenError,
             session_user := user token\<rparr>"
    using assms(4) by (simp add: a session_callback_def)
  have c: "fetchPlaylists (Rejected e) hp =
           hp\<lparr>isLoadingPlaylists := False,
              apiError := Some ''Your session has expired. Please log in again.'',
              home_effects := home_effects hp @ [GetPlaylists tok, SignOut]\<rparr>"
    using assms(5,6,8) assms(7) [unfolded b]
    by (simp add: fetchPlaylists_def Let_def)
  from a b c show ?thesis by simp
qed

theorem refresh_failure_marks_token_and_page_signs_out_witness:
  "\<not> token_not_expired expired_token 5000 \<and> refresh_failed (Response False rotated_body)
   \<and> jwt expired_token None None 5000 5000 (Response False rotated_body) =
        (expired_token\<lparr>error := Some RefreshAccessTokenError\<rparr>,
         [RefreshRequest (refreshToken expired_token)])
   \<and> session_accessToken failed_refresh_session = Some ''old-access''
   \<and> home_effects (fetchPlaylists (Rejected unauthorized) (home_signed_in failed_refresh_session))
       = [GetPlaylists ''old-access'', SignOut]"
proof -
  let ?hp = "home_signed_in failed_refresh_session"
  have 1: "(None :: account option) = None \<or> (None :: user_info option) = None"
    by simp
  have 2: "\<not> token_not_expired expired_token 5000"
    by (simp add: token_not_expired_def expired_token_def)
  have 3: "refresh_failed (Response False rotated_body)"
    by (simp add: refresh_failed_def)
  have 4: "accessToken expired_token = Some ''old-access''"
    by (simp add: expired_token_def)
  have 5: "''old-access'' \<noteq> []"
    by simp
  have 6: "home_status ?hp = Authenticated"
    by (simp add: home_signed_in_def)
  have 7: "home_session ?hp = Some (session_callback stale_session
             (fst (jwt expired_token None None 5000 5000 (Response False rotated_body))))"
    by (simp add: home_signed_in_def failed_refresh_session_def)
  have 8: "response_status unauthorized = Some 401"
    by (simp add: unauthorized_def)
  note r = refresh_failure_marks_token_and_page_signs_out [OF 1 2 3 4 5 6 7 8]
  have a: "jwt expired_token None None 5000 5000 (Response False rotated_body) =
        (expired_token\<lparr>error := Some RefreshAccessTokenError\<rparr>,
         [RefreshRequest (refreshToken expired_token)])"
    using r by (rule conjunct1)
  have b: "session_accessToken failed_refresh_session = Some ''old-access''"
    unfolding failed_refresh_session_def
    by (simp add: r [THEN conjunct2, THEN conjunct1])
  have "home_effects (fetchPlaylists (Rejected unauthorized) ?hp) =
          home_effects ?hp @ [GetPlaylists ''old-access'', SignOut]"
    by (simp add: r [THEN conjunct2, THEN conjunct2])
  then have c: "home_effects (fetchPlaylists (Rejected unauthorized) ?hp) =
          [GetPlaylists ''old-access'', SignOut]"
    by (simp add: home_signed_in_def)
  from 2 3 a b c show ?thesis by simp
qed

subsection \<open>C6: when a token counts as valid\<close>

text \<open>
  C6: the validity check is true if and only if the current time is strictly before the
  expiry; at a current time equal to the expiry it is false, and the refresh is
  attempted. The clock \<open>now\<close> is in milliseconds since the epoch, so it is not negative;
  the expiry \<open>e\<close> is in seconds. While the check is true the callback returns the token
  as it is and sends nothing.
\<close>

theorem token_valid_iff_strictly_before_expiry:
  assumes "0 \<le> now" and "expiresAt token = Some e"
  shows "(token_not_expired token now \<longleftrightarrow> now < e * 1000)
       \<and> \<not> token_not_expired token (e * 1000)
       \<and> snd (jwt token None None (e * 1000) now2 outcome) =
           [RefreshRequest (refreshToken token)]
       \<and> (token_not_expired token now \<longrightarrow> jwt token None None now now2 outcome = (token, []))"
proof -
  have a: "token_not_expired token now \<longleftrightarrow> now < e * 1000"
    using assms by (auto simp: token_not_expired_def)
  have b: "\<not> token_not_expired token (e * 1000)"
    using assms by (simp add: token_not_expired_def)
  have c: "snd (jwt token None None (e * 1000) now2 outcome) =
             [RefreshRequest (refreshToken token)]"
    using b by (simp add: jwt_no_account split: refresh_outcome.splits bool.splits)
  have d: "token_not_expired token now \<longrightarrow> jwt token None None now now2 outcome = (token, [])"
    by (simp add: jwt_no_account)
  from a b c d show ?thesis by blast
qed

theorem token_valid_iff_strictly_before_expiry_witness:
  "(0::int) \<le> 999 \<and> expiresAt expired_token = Some 1
   \<and> token_not_expired expired_token 999
   \<and> \<not> token_not_expired expired_token 1000
   \<and> snd (jwt expired_token None None 1000 1000 RequestThrows) =
       [RefreshRequest (Some ''old-refresh'')]
   \<and> jwt expired_token None None 999 999 RequestThrows = (expired_token, [])"
  using token_valid_iff_strictly_before_expiry
    [where now = 999 and token = expired_token and e = 1 and ?now2.0 = 1000
       and outcome = RequestThrows]
    token_valid_iff_strictly_before_expiry
    [where now = 999 and token = expired_token and e = 1 and ?now2.0 = 999
       and outcome = RequestThrows]
  by (simp add: expired_token_def)

subsection \<open>C7: the device reports an authentication error\<close>

text \<open>
  C7 as stated: when the device reports \<^verbatim>\<open>authentication_error\<close> the credential is
  invalidated and no further catalog call is made with the old credential. It fails on
  the run \<open>selected_after_auth_error\<close>. Instance 0 is connecting and reports the error;
  the listener calls \<^verbatim>\<open>signOut\<close> without waiting for it and leaves the session where
  it is. The page still shows the playlists; the user selects one, and the track effect
  sends its request with the old token.
\<close>

theorem old_credential_used_after_authentication_error_counterexample:
  "issued connecting auth_error_reported = [SignOut]
   \<and> status auth_error_reported = Authenticated
   \<and> sessionToken auth_error_reported = Some ''token-1''
   \<and> issued auth_error_reported selected_after_auth_error =
       [GetPlaylistTracks ''playlist-A'' ''token-1'' 50]"
  by (simp add: selected_after_auth_error_def auth_error_reported_def authentication_error_def
      fetchPlaylistTracks_start_def handlePlaylistSelect_def emit_def issued_def
      connecting_fields)

text \<open>
  C7 as amended: when the device reports \<^verbatim>\<open>authentication_error\<close> the listener forces
  the sign-out (the call of \<^verbatim>\<open>signOut\<close> is the one thing it does to the outside, so it
  makes no catalog call itself) and sets the message that asks for a new login. It
  leaves the access token, the status, the player, the device id and the selection as
  they were. So the requests that follow are the ones that would have been sent without
  the error: a track fetch sends what it would have sent, and with a device ready and a
  token present \<open>playTrack\<close> starts with the transfer request, with the old token. Only
  a session without an access token stops them (lines 191 and 225).
\<close>

theorem authentication_error_forces_sign_out:
  "issued w (authentication_error msg w) = [SignOut]
   \<and> playbackError (authentication_error msg w) =
        Some (''Authentication Error: '' @ msg @ ''. Please re-login.'')
   \<and> \<not> playerInitialized (authentication_error msg w)
   \<and> \<not> playerLoading (authentication_error msg w)
   \<and> sessionToken (authentication_error msg w) = sessionToken w
   \<and> status (authentication_error msg w) = status w
   \<and> player (authentication_error msg w) = player w
   \<and> deviceId (authentication_error msg w) = deviceId w
   \<and> selectedPlaylistId (authentication_error msg w) = selectedPlaylistId w
   \<and> issued (authentication_error msg w) (fetchPlaylistTracks_start (authentication_error msg w))
       = issued w (fetchPlaylistTracks_start w)
   \<and> (\<forall>dev tok. device_is_ready w \<and> deviceId w = Some dev \<and> sessionToken w = Some tok
          \<and> tok \<noteq> [] \<longrightarrow>
          (\<exists>rest. issued (authentication_error msg w)
                     (playTrack trackUri ta pa (authentication_error msg w)) =
                   TransferPlayback dev tok # rest))
   \<and> (\<not> truthy (sessionToken w) \<longrightarrow>
         issued w (fetchPlaylistTracks_start w) = []
         \<and> issued w (playTrack trackUri ta pa w) = [])"
proof -
  let ?a = "authentication_error msg w"
  have a: "issued w ?a = [SignOut]"
    by (simp add: authentication_error_def issued_def emit_def)
  have b: "playbackError ?a = Some (''Authentication Error: '' @ msg @ ''. Please re-login.'')"
    "\<not> playerInitialized ?a" "\<not> playerLoading ?a"
    "sessionToken ?a = sessionToken w" "status ?a = status w" "player ?a = player w"
    "deviceId ?a = deviceId w" "selectedPlaylistId ?a = selectedPlaylistId w"
    by (simp_all add: authentication_error_def emit_def)
  have c: "issued ?a (fetchPlaylistTracks_start ?a) = issued w (fetchPlaylistTracks_start w)"
    by (simp add: fetchPlaylistTracks_start_def issued_def emit_def b split: option.splits)
  have n: "playbackError ?a \<noteq> Some PREMIUM_REQUIRED_MESSAGE"
    by (simp add: b PREMIUM_REQUIRED_MESSAGE_def)
  have d: "device_is_ready w \<and> deviceId w = Some dev \<and> sessionToken w = Some tok \<and> tok \<noteq> []
           \<Longrightarrow> \<exists>rest. issued ?a (playTrack trackUri ta pa ?a) = TransferPlayback dev tok # rest"
    for dev tok
    using n
    by (auto simp: issued_playTrack b(4-7) device_is_ready_def truthy_def
        split: option.splits http_result.splits)
  have e1: "\<not> truthy (sessionToken w) \<Longrightarrow> issued w (fetchPlaylistTracks_start w) = []"
    by (auto simp: fetchPlaylistTracks_start_def issued_def truthy_def split: option.splits)
  have e2: "\<not> truthy (sessionToken w) \<Longrightarrow> issued w (playTrack trackUri ta pa w) = []"
    by (auto simp: issued_playTrack truthy_def split: option.splits)
  from e1 e2 have e: "\<not> truthy (sessionToken w) \<Longrightarrow>
             issued w (fetchPlaylistTracks_start w) = []
             \<and> issued w (playTrack trackUri ta pa w) = []"
    by simp
  from a b c d e show ?thesis by blast
qed

theorem authentication_error_forces_sign_out_witness:
  "effects auth_error_reported = [Connect handle0, SignOut]
   \<and> render auth_error_reported =
       ConnectionFailed (Some ''Authentication Error: Invalid token. Please re-login.'')
   \<and> sessionToken auth_error_reported = Some ''token-1''
   \<and> device_is_ready tracks_A_shown
   \<and> hd (issued (authentication_error ''Invalid token'' tracks_A_shown)
            (playTrack ''spotify:track:a'' (Resolved ()) (Resolved ())
               (authentication_error ''Invalid token'' tracks_A_shown))) =
       TransferPlayback ''device-1'' ''token-2''
   \<and> \<not> truthy (sessionToken (fst token_lost_run))
   \<and> issued (fst token_lost_run)
        (fetchPlaylistTracks_start (fst token_lost_run)) = []"
proof -
  note t = authentication_error_forces_sign_out
    [where w = connecting and msg = "''Invalid token''"]
  note u = authentication_error_forces_sign_out
    [where w = tracks_A_shown and msg = "''Invalid token''"
       and trackUri = "''spotify:track:a''" and ta = "Resolved ()" and pa = "Resolved ()"]
  note v = authentication_error_forces_sign_out [where w = "fst token_lost_run"]
  have 1: "effects auth_error_reported = [Connect handle0, SignOut]"
    by (simp add: auth_error_reported_def authentication_error_def emit_def connecting_fields)
  from t have 2: "render auth_error_reported =
       ConnectionFailed (Some ''Authentication Error: Invalid token. Please re-login.'')"
    by (simp add: auth_error_reported_def render_def connecting_fields)
  from t have 3: "sessionToken auth_error_reported = Some ''token-1''"
    by (simp add: auth_error_reported_def connecting_fields)
  have 4: "device_is_ready tracks_A_shown"
    by (simp add: device_is_ready_def truthy_def tracks_A_shown_fields)
  have "device_is_ready tracks_A_shown \<and> deviceId tracks_A_shown = Some ''device-1''
        \<and> sessionToken tracks_A_shown = Some ''token-2'' \<and> ''token-2'' \<noteq> []"
    by (simp add: 4 tracks_A_shown_fields)
  with u obtain rest where
    "issued (authentication_error ''Invalid token'' tracks_A_shown)
       (playTrack ''spotify:track:a'' (Resolved ()) (Resolved ())
          (authentication_error ''Invalid token'' tracks_A_shown)) =
     TransferPlayback ''device-1'' ''token-2'' # rest"
    by blast
  then have 5: "hd (issued (authentication_error ''Invalid token'' tracks_A_shown)
            (playTrack ''spotify:track:a'' (Resolved ()) (Resolved ())
               (authentication_error ''Invalid token'' tracks_A_shown))) =
       TransferPlayback ''device-1'' ''token-2''"
    by simp
  have 6: "\<not> truthy (sessionToken (fst token_lost_run))"
    by (simp add: token_lost_run_def mounted_run_def after_session_change_def
        session_changes_def sdk_effect_def sdk_cleanup_def token_effect_def
        initializeSpotifyPlayer_def mounted_def truthy_def emit_def
        fetchPlaylistTracks_start_def Let_def)
  from 6 v have 7: "issued (fst token_lost_run)
        (fetchPlaylistTracks_start (fst token_lost_run)) = []"
    by blast
  from 1 2 3 4 5 6 7 show ?thesis by simp
qed

subsection \<open>C8: the transport controls\<close>

text \<open>
  C8: \<open>togglePlayPause\<close>, \<open>skipNext\<close> and \<open>skipPrevious\<close> go directly to the player
  instance, with no request to the Web API, and each does nothing whenever no device is
  ready. Each control is \<^verbatim>\<open>player?.\<close> followed by one call: with no instance held it
  changes nothing, with an instance held it makes that one call and changes no state
  variable, and none sends a request. A device is ready when an instance is held and has
  a device id. The controls are reached through their buttons only, and the buttons are
  rendered only while a device is ready: whenever none is, pressing a control changes
  nothing; and where the buttons are rendered and enabled, pressing a control is its one
  call on the instance.
\<close>

theorem transport_controls_direct_and_idle_unless_ready:
  "(player w = None \<longrightarrow> togglePlayPause w = w \<and> skipNext w = w \<and> skipPrevious w = w)
   \<and> (\<forall>p. player w = Some p \<longrightarrow>
         togglePlayPause w = w\<lparr>effects := effects w @ [TogglePlay p]\<rparr>
         \<and> skipNext w = w\<lparr>effects := effects w @ [NextTrack p]\<rparr>
         \<and> skipPrevious w = w\<lparr>effects := effects w @ [PreviousTrack p]\<rparr>)
   \<and> filter is_catalog_call (issued w (togglePlayPause w)) = []
   \<and> filter is_catalog_call (issued w (skipNext w)) = []
   \<and> filter is_catalog_call (issued w (skipPrevious w)) = []
   \<and> (\<not> device_is_ready w \<longrightarrow>
         press togglePlayPause w = w \<and> press skipNext w = w \<and> press skipPrevious w = w)
   \<and> (\<forall>p. player w = Some p \<and> render w = PlayerControls False \<longrightarrow>
         press togglePlayPause w = w\<lparr>effects := effects w @ [TogglePlay p]\<rparr>
         \<and> press skipNext w = w\<lparr>effects := effects w @ [NextTrack p]\<rparr>
         \<and> press skipPrevious w = w\<lparr>effects := effects w @ [PreviousTrack p]\<rparr>)
   \<and> (\<forall>b. render w = PlayerControls b \<longrightarrow> device_is_ready w)"
proof -
  have a: "player w = None \<Longrightarrow> togglePlayPause w = w \<and> skipNext w = w \<and> skipPrevious w = w"
    by (simp add: togglePlayPause_def skipNext_def skipPrevious_def)
  have b: "player w = Some p \<Longrightarrow>
         togglePlayPause w = w\<lparr>effects := effects w @ [TogglePlay p]\<rparr>
         \<and> skipNext w = w\<lparr>effects := effects w @ [NextTrack p]\<rparr>
         \<and> skipPrevious w = w\<lparr>effects := effects w @ [PreviousTrack p]\<rparr>" for p
    by (simp add: togglePlayPause_def skipNext_def skipPrevious_def emit_def)
  have c: "filter is_catalog_call (issued w (togglePlayPause w)) = []"
    "filter is_catalog_call (issued w (skipNext w)) = []"
    "filter is_catalog_call (issued w (skipPrevious w)) = []"
    by (simp_all add: togglePlayPause_def skipNext_def skipPrevious_def emit_def issued_def
        split: option.splits)
  have r: "render w = PlayerControls b \<Longrightarrow> device_is_ready w" for b
    by (simp add: render_def device_is_ready_def split: if_splits)
  have d: "\<not> device_is_ready w \<Longrightarrow> press control w = w" for control
    using r by (cases "render w") (auto simp: press_def)
  have e: "render w = PlayerControls False \<Longrightarrow> press control w = control w" for control
    by (simp add: press_def)
  from a b c d e r show ?thesis by metis
qed

theorem transport_controls_direct_and_idle_unless_ready_witness:
  "player connecting = None
   \<and> togglePlayPause connecting = connecting
   \<and> skipNext connecting = connecting
   \<and> skipPrevious connecting = connecting
   \<and> \<not> device_is_ready device_gone_offline
   \<and> press togglePlayPause device_gone_offline = device_gone_offline
   \<and> press skipNext device_gone_offline = device_gone_offline
   \<and> press skipPrevious device_gone_offline = device_gone_offline
   \<and> player tracks_A_shown = Some handle0
   \<and> render tracks_A_shown = PlayerControls False
   \<and> issued tracks_A_shown (press togglePlayPause tracks_A_shown) = [TogglePlay handle0]
   \<and> issued tracks_A_shown (press skipNext tracks_A_shown) = [NextTrack handle0]
   \<and> issued tracks_A_shown (press skipPrevious tracks_A_shown) = [PreviousTrack handle0]"
proof -
  note c = transport_controls_direct_and_idle_unless_ready [where w = connecting]
  note d = transport_controls_direct_and_idle_unless_ready [where w = device_gone_offline]
  note t = transport_controls_direct_and_idle_unless_ready [where w = tracks_A_shown]
  have 1: "player connecting = None"
    by (simp add: connecting_fields)
  from 1 c have 2: "togglePlayPause connecting = connecting \<and> skipNext connecting = connecting
                    \<and> skipPrevious connecting = connecting"
    by blast
  have 3: "\<not> device_is_ready device_gone_offline"
    by (simp add: device_is_ready_def device_gone_offline_def not_ready_def truthy_def)
  from 3 d have 4: "press togglePlayPause device_gone_offline = device_gone_offline
                    \<and> press skipNext device_gone_offline = device_gone_offline
                    \<and> press skipPrevious device_gone_offline = device_gone_offline"
    by blast
  have 5: "player tracks_A_shown = Some handle0"
    by (simp add: tracks_A_shown_fields)
  have 6: "render tracks_A_shown = PlayerControls False"
    by (simp add: render_def truthy_def tracks_A_shown_fields PREMIUM_REQUIRED_MESSAGE_def)
  from 5 6 t have 7:
    "press togglePlayPause tracks_A_shown =
       tracks_A_shown\<lparr>effects := effects tracks_A_shown @ [TogglePlay handle0]\<rparr>"
    "press skipNext tracks_A_shown =
       tracks_A_shown\<lparr>effects := effects tracks_A_shown @ [NextTrack handle0]\<rparr>"
    "press skipPrevious tracks_A_shown =
       tracks_A_shown\<lparr>effects := effects tracks_A_shown @ [PreviousTrack handle0]\<rparr>"
    by blast+
  have 8: "issued tracks_A_shown (press togglePlayPause tracks_A_shown) = [TogglePlay handle0]"
    "issued tracks_A_shown (press skipNext tracks_A_shown) = [NextTrack handle0]"
    "issued tracks_A_shown (press skipPrevious tracks_A_shown) = [PreviousTrack handle0]"
    by (simp_all add: 7 issued_def)
  from 1 2 3 4 5 6 8 show ?thesis by simp
qed

subsection \<open>C9: only track objects are stored\<close>

text \<open>
  C9: after a successful track fetch the stored list holds no null: it is the tracks of
  the answer's items, in the items' order, with the items that have no track left out.
\<close>

theorem stored_tracks_are_non_null:
  "tracks (fetchPlaylistTracks_finish pid (Resolved items) w) =
     map Some (List.map_filter item_track items)
   \<and> None \<notin> set (tracks (fetchPlaylistTracks_finish pid (Resolved items) w))
   \<and> (\<forall>t. Some t \<in> set (tracks (fetchPlaylistTracks_finish pid (Resolved items) w))
          \<longleftrightarrow> (\<exists>i \<in> set items. item_track i = Some t))"
proof -
  have a: "filter_Boolean (map item_track items) = map Some (List.map_filter item_track items)"
    by (induction items) (auto simp: filter_Boolean_def)
  have b: "tracks (fetchPlaylistTracks_finish pid (Resolved items) w) =
             filter_Boolean (map item_track items)"
    by (simp add: fetchPlaylistTracks_finish_def Let_def)
  have c: "None \<notin> set (filter_Boolean (map item_track items))"
    by (simp add: filter_Boolean_def)
  have d: "Some t \<in> set (filter_Boolean (map item_track items))
             \<longleftrightarrow> (\<exists>i \<in> set items. item_track i = Some t)" for t
    by (force simp: filter_Boolean_def)
  from a b c d show ?thesis by simp
qed

theorem stored_tracks_are_non_null_witness:
  "tracks (fetchPlaylistTracks_finish ''playlist-A''
     (Resolved [\<lparr>item_track = Some song_a\<rparr>, \<lparr>item_track = None\<rparr>, \<lparr>item_track = Some song_b\<rparr>])
     selected_A) = [Some song_a, Some song_b]"
  using stored_tracks_are_non_null
    [where pid = "''playlist-A''" and w = selected_A
       and items = "[\<lparr>item_track = Some song_a\<rparr>, \<lparr>item_track = None\<rparr>,
                     \<lparr>item_track = Some song_b\<rparr>]"]
  by simp

subsection \<open>C10: a refresh answer without a refresh token\<close>

text \<open>
  C10: when a refresh succeeds and the answer holds no new refresh token, the returned
  token keeps the old refresh token, and takes the answer's access token and the expiry
  computed from the answer: the clock in whole seconds plus \<^verbatim>\<open>expires_in\<close>. Nothing
  else of the token changes.
\<close>

theorem refresh_keeps_old_refresh_token:
  assumes "acc = None \<or> usr = None"
    and "\<not> token_not_expired token now1"
    and "new_refresh_token body = None"
  shows "fst (jwt token acc usr now1 now2 (Response True body)) =
           token\<lparr>accessToken := new_access_token body,
                 expiresAt := Some (now2 div 1000 + expires_in body)\<rparr>
       \<and> refreshToken (fst (jwt token acc usr now1 now2 (Response True body))) =
           refreshToken token"
  using assms by (simp add: jwt_no_account)

theorem refresh_keeps_old_refresh_token_witness:
  "\<not> token_not_expired expired_token 5000 \<and> new_refresh_token rotated_body = None
   \<and> refreshToken (fst (jwt expired_token None None 5000 7999 (Response True rotated_body))) =
       Some ''old-refresh''
   \<and> accessToken (fst (jwt expired_token None None 5000 7999 (Response True rotated_body))) =
       Some ''new-access''
   \<and> expiresAt (fst (jwt expired_token None None 5000 7999 (Response True rotated_body))) =
       Some 3607"
  using refresh_keeps_old_refresh_token
    [where acc = None and usr = None and token = expired_token and ?now1.0 = 5000
       and body = rotated_body and ?now2.0 = 7999]
  by (simp add: expired_token_def rotated_body_def token_not_expired_def)

end
